theory Spec2Isabelle
  imports Complex_Main "HOL-Library.Sublist"
begin

section \<open>Data model of \<^verbatim>\<open>spot_wrapper/spot_dance.py\<close>\<close>

text \<open>
  The module drives three external collaborators (the robot handle, the choreography
  client and the animation converter).  They are modelled as a record of oracles (what
  each call answers), and every function of the module returns its result together with
  the list of external calls it made, in order.

  Python exceptions are values.  Only subclasses of \<^verbatim>\<open>Exception\<close> are modelled; each
  carries the text that \<^verbatim>\<open>str(e)\<close> yields.  \<^verbatim>\<open>ResponseError\<close> also carries the
  \<^verbatim>\<open>warnings\<close> of its \<^verbatim>\<open>response\<close>.  \<open>OtherException\<close> stands for every exception
  class that no \<^verbatim>\<open>except\<close> clause of the module names.

  Python floats (\<^verbatim>\<open>slices_per_minute\<close>, clock readings, the estimate) are idealised as
  reals: rounding, infinities and NaN are not modelled.  Division by zero raises, as
  in Python.
\<close>

datatype exn =
    UnauthenticatedError string
  | ResponseError "string list" string
  | CommandTimedOutError string
  | ZeroDivisionError string
  | UnboundLocalError string
  | OtherException string

fun str_exn :: "exn \<Rightarrow> string" where
  "str_exn (UnauthenticatedError s) = s"
| "str_exn (ResponseError ws s) = s"
| "str_exn (CommandTimedOutError s) = s"
| "str_exn (ZeroDivisionError s) = s"
| "str_exn (UnboundLocalError s) = s"
| "str_exn (OtherException s) = s"

text \<open>\<^verbatim>\<open>str\<close> of a Python integer (the value of a protobuf enum field), in decimal.\<close>

definition digit_char :: "nat \<Rightarrow> char" where
  "digit_char d =
     (if d = 0 then CHR ''0'' else if d = 1 then CHR ''1'' else if d = 2 then CHR ''2''
      else if d = 3 then CHR ''3'' else if d = 4 then CHR ''4'' else if d = 5 then CHR ''5''
      else if d = 6 then CHR ''6'' else if d = 7 then CHR ''7'' else if d = 8 then CHR ''8''
      else CHR ''9'')"

fun str_nat :: "nat \<Rightarrow> string" where
  "str_nat n = (if n < 10 then [digit_char n] else str_nat (n div 10) @ [digit_char (n mod 10)])"

declare str_nat.simps [simp del]

definition str_int :: "int \<Rightarrow> string" where
  "str_int i = (if i < 0 then CHR ''-'' # str_nat (nat (- i)) else str_nat (nat i))"

text \<open>
  The two protobuf messages the module reads: a \<^verbatim>\<open>ChoreographySequence\<close> has a name, a
  rate and a list of moves; of a move only \<^verbatim>\<open>requested_slices\<close> is read.
\<close>

record MoveParams =
  move_type :: string
  requested_slices :: int

record ChoreographySequence =
  name :: string
  slices_per_minute :: real
  moves :: "MoveParams list"

text \<open>
  The enum constants of \<^verbatim>\<open>choreography_sequence_pb2\<close> that the module names.  The
  generated protobuf module is not part of this repository, so the numbering is a
  parameter: \<open>STATUS_OK\<close> is \<^verbatim>\<open>ExecuteChoreographyResponse.Status.STATUS_OK\<close>, the other
  five belong to \<^verbatim>\<open>ChoreographyStatusResponse.Status\<close>.
\<close>

record choreography_sequence_pb2 =
  STATUS_PREPPING :: int
  STATUS_DANCING :: int
  STATUS_WAITING_FOR_START_TIME :: int
  STATUS_VALIDATING :: int
  STATUS_COMPLETED_SEQUENCE :: int
  STATUS_OK :: int

text \<open>The numbering published in the Boston Dynamics API, for concrete runs.\<close>

definition bosdyn_pb2 :: choreography_sequence_pb2 where
  "bosdyn_pb2 =
     \<lparr>STATUS_PREPPING = 3, STATUS_DANCING = 1, STATUS_WAITING_FOR_START_TIME = 4,
      STATUS_VALIDATING = 5, STATUS_COMPLETED_SEQUENCE = 2, STATUS_OK = 1\<rparr>"

section \<open>The collaborators of \<^verbatim>\<open>execute_dance\<close>\<close>

text \<open>
  \<^item> \<open>is_estopped\<close>: what \<^verbatim>\<open>robot.is_estopped()\<close> answers (it is a remote call and may raise);
  \<^item> \<open>Merge\<close>: what \<^verbatim>\<open>text_format.Merge(data, ChoreographySequence())\<close> leaves in the message, or the
    exception it raises;
  \<^item> \<open>upload_choreography\<close>: \<open>None\<close> when the call returns, the exception otherwise; the
    boolean is \<^verbatim>\<open>non_strict_parsing\<close>;
  \<^item> \<open>power_on\<close>: likewise;
  \<^item> \<open>execute_choreography\<close>: the \<^verbatim>\<open>status\<close> of the response, or the exception;
  \<^item> \<open>time_time n\<close>: what the \<open>n\<close>-th call of \<^verbatim>\<open>time.time()\<close> in this run returns
    (nothing is assumed about the clock, not even that it moves forward);
  \<^item> \<open>get_choreography_status k\<close>: the \<^verbatim>\<open>status\<close> of element 0 of the \<open>k\<close>-th poll, or the
    exception that the request or the indexing raises.
\<close>

record world =
  is_estopped :: "exn + bool"
  Merge :: "string \<Rightarrow> exn + ChoreographySequence"
  upload_choreography :: "ChoreographySequence \<Rightarrow> bool \<Rightarrow> exn option"
  power_on :: "exn option"
  execute_choreography :: "string \<Rightarrow> real \<Rightarrow> int \<Rightarrow> exn + int"
  time_time :: "nat \<Rightarrow> real"
  get_choreography_status :: "nat \<Rightarrow> exn + int"

datatype call =
    Call_is_estopped
  | Call_Merge string
  | Call_upload_choreography ChoreographySequence bool
  | Call_power_on
  | Call_execute_choreography string real int
  | Call_time
  | Call_get_choreography_status
  | Call_logger_info string
  | Call_sleep real

type_synonym result = "exn + bool \<times> string"

section \<open>\<^verbatim>\<open>_check_dance_completed\<close>\<close>

definition ongoing_states :: "choreography_sequence_pb2 \<Rightarrow> int list" where
  "ongoing_states pb =
     [STATUS_PREPPING pb, STATUS_DANCING pb, STATUS_WAITING_FOR_START_TIME pb,
      STATUS_VALIDATING pb]"

definition check_dance_completed :: "choreography_sequence_pb2 \<Rightarrow> int \<Rightarrow> bool" where
  "check_dance_completed pb status = (status \<notin> set (ongoing_states pb))"

section \<open>\<^verbatim>\<open>execute_dance\<close>\<close>

subsection \<open>The duration estimate (lines 139 to 144)\<close>

text \<open>
  The \<^verbatim>\<open>for\<close> loop over the moves.  Its state is \<^verbatim>\<open>total_choreography_slices\<close> and
  \<^verbatim>\<open>estimated_time_seconds\<close>; the latter is unbound (\<open>None\<close>) until the first iteration
  assigns it.  The division raises when the rate is zero.
\<close>

fun estimate_loop ::
  "real \<Rightarrow> MoveParams list \<Rightarrow> int \<times> real option \<Rightarrow> exn + int \<times> real option" where
  "estimate_loop spm [] st = Inr st"
| "estimate_loop spm (move # rest) (total_choreography_slices, estimated_time_seconds) =
     (let total' = total_choreography_slices + requested_slices move
      in if spm = 0 then Inl (ZeroDivisionError ''float division by zero'')
         else estimate_loop spm rest (total', Some (real_of_int total' / spm * 60)))"

text \<open>
  What the loop leaves in \<^verbatim>\<open>estimated_time_seconds\<close>, the only variable of the loop
  that is read afterwards: \<open>Inr None\<close> when it is still unbound.
\<close>

definition estimated_time_seconds :: "ChoreographySequence \<Rightarrow> exn + real option" where
  "estimated_time_seconds choreography =
     (case estimate_loop (slices_per_minute choreography) (moves choreography) (0, None) of
        Inl e \<Rightarrow> Inl e
      | Inr st \<Rightarrow> Inr (snd st))"

text \<open>
  The formulation of the specification, for comparison: sum all slices first, then convert
  once (\<^verbatim>\<open>total_slices / slices_per_minute * 60\<close>).
\<close>

definition total_slices :: "ChoreographySequence \<Rightarrow> int" where
  "total_slices choreography = sum_list (map requested_slices (moves choreography))"

definition post_loop_estimate :: "ChoreographySequence \<Rightarrow> exn + real" where
  "post_loop_estimate choreography =
     (if slices_per_minute choreography = 0 then Inl (ZeroDivisionError ''float division by zero'')
      else Inr (real_of_int (total_slices choreography) / slices_per_minute choreography * 60))"

subsection \<open>The polling loop (lines 146 to 157)\<close>

text \<open>
  Iteration \<open>k\<close> of the \<^verbatim>\<open>while\<close> loop; \<open>est\<close> is the value of
  \<^verbatim>\<open>estimated_time_seconds\<close>.  Readings 0 and 1 of the clock are
  \<^verbatim>\<open>client_start_time\<close> and \<^verbatim>\<open>start\<close>, so the loop test of iteration \<open>k\<close> is reading
  \<open>k + 2\<close>.  The loop need not end (a clock that stands still, a dance that never
  finishes): then the value is \<open>None\<close>.
\<close>

definition iteration_calls :: "int \<Rightarrow> call list" where
  "iteration_calls status =
     [Call_time, Call_get_choreography_status, Call_logger_info (str_int status),
      Call_sleep 0.2]"

partial_function (option) poll_loop ::
  "choreography_sequence_pb2 \<Rightarrow> world \<Rightarrow> real \<Rightarrow> real \<Rightarrow> nat \<Rightarrow> call list
     \<Rightarrow> (result \<times> call list) option" where
  "poll_loop pb w start est k tr =
     (if time_time w (k + 2) - start < est + 0.2 then
        (case get_choreography_status w k of
           Inl e \<Rightarrow> Some (Inl e, tr @ [Call_time, Call_get_choreography_status])
         | Inr status \<Rightarrow>
             if check_dance_completed pb status then
               (if status = STATUS_COMPLETED_SEQUENCE pb then
                  Some (Inr (True, ''success''),
                        tr @ [Call_time, Call_get_choreography_status,
                              Call_logger_info (str_int status)])
                else
                  Some (Inr (False,
                          ''call to execute_choreography returned unsuccessful status: ''
                            @ str_int status),
                        tr @ [Call_time, Call_get_choreography_status,
                              Call_logger_info (str_int status)]))
             else poll_loop pb w start est (k + 1)
                    (tr @ iteration_calls status))
      else Some (Inl (CommandTimedOutError []), tr @ [Call_time]))"

subsection \<open>The body of the last \<^verbatim>\<open>try\<close> (lines 126 to 157)\<close>

definition try_body ::
  "choreography_sequence_pb2 \<Rightarrow> world \<Rightarrow> ChoreographySequence \<Rightarrow> call list
     \<Rightarrow> (result \<times> call list) option" where
  "try_body pb w choreography tr =
     (case power_on w of
        Some e \<Rightarrow> Some (Inl e, tr @ [Call_power_on])
      | None \<Rightarrow>
          let routine_name = name choreography;
              client_start_time = time_time w 0;
              start_slice = 0;
              tr1 = tr @ [Call_power_on, Call_time,
                           Call_execute_choreography routine_name client_start_time start_slice]
          in case execute_choreography w routine_name client_start_time start_slice of
               Inl e \<Rightarrow> Some (Inl e, tr1)
             | Inr status \<Rightarrow>
                 if status \<noteq> STATUS_OK pb then
                   Some (Inr (False,
                           ''Issue calling execute_choreography, got response.status: ''
                             @ str_int status), tr1)
                 else
                   (case estimated_time_seconds choreography of
                      Inl e \<Rightarrow> Some (Inl e, tr1)
                    | Inr None \<Rightarrow>
                        Some (Inl (UnboundLocalError
                                ''local variable 'estimated_time_seconds' referenced before assignment''),
                              tr1 @ [Call_time, Call_time])
                    | Inr (Some est) \<Rightarrow>
                        poll_loop pb w (time_time w 1) est 0 (tr1 @ [Call_time])))"

subsection \<open>The handlers of the last \<^verbatim>\<open>try\<close> (lines 159 to 162)\<close>

fun handlers :: "result \<Rightarrow> result" where
  "handlers (Inl (CommandTimedOutError s)) =
     Inl (CommandTimedOutError
       ''Call to execute_choreography did not return completion state in stipulated time'')"
| "handlers (Inl e) = Inr (False, ''Error executing dance: '' @ str_exn e)"
| "handlers (Inr r) = Inr r"

subsection \<open>The whole function\<close>

text \<open>
  In lines 103 to 104 and 117 to 118 the second string literal is a statement of its
  own, not a continuation: the message is the first literal alone.
\<close>

definition estop_msg :: string where
  "estop_msg = ''Robot is estopped. Please use an external E-Stop client''"

definition license_msg :: string where
  "license_msg =
     ''The robot license must contain 'choreography' permissions to upload and execute dances.''"

definition warnings_msg :: "string list \<Rightarrow> string" where
  "warnings_msg warnings =
     foldl (\<lambda>error_msg warn. error_msg @ warn)
       ''Choreography sequence upload failed. The following warnings were produced: ''
       warnings"

definition execute_dance ::
  "choreography_sequence_pb2 \<Rightarrow> world \<Rightarrow> string \<Rightarrow> (result \<times> call list) option" where
  "execute_dance pb w data =
     (case is_estopped w of
        Inl e \<Rightarrow> Some (Inl e, [Call_is_estopped])
      | Inr True \<Rightarrow> Some (Inr (False, estop_msg), [Call_is_estopped])
      | Inr False \<Rightarrow>
          (case Merge w data of
             Inl execp \<Rightarrow>
               Some (Inr (False, ''Failed to load choreography. Raised exception: ''
                                   @ str_exn execp),
                     [Call_is_estopped, Call_Merge data])
           | Inr choreography \<Rightarrow>
               let tr = [Call_is_estopped, Call_Merge data,
                         Call_upload_choreography choreography True]
               in case upload_choreography w choreography True of
                    Some (UnauthenticatedError s) \<Rightarrow> Some (Inr (False, license_msg), tr)
                  | Some (ResponseError warnings s) \<Rightarrow>
                      Some (Inr (False, warnings_msg warnings), tr)
                  | Some e \<Rightarrow> Some (Inl e, tr)
                  | None \<Rightarrow>
                      map_option (\<lambda>(r, tr'). (handlers r, tr'))
                        (try_body pb w choreography tr)))"

section \<open>\<^verbatim>\<open>upload_animation\<close>\<close>

text \<open>
  The animation message is opaque (type \<open>'a\<close>).  \<open>temp_dir\<close> is the directory that
  \<^verbatim>\<open>tempfile.TemporaryDirectory()\<close> creates, \<open>write_file\<close> the outcome of opening and
  writing the file, \<open>convert_animation_file_to_proto\<close> the converter's answer for that
  file (its \<^verbatim>\<open>.proto\<close>) and \<open>upload_animated_move\<close> the outcome of the service call.
\<close>

record 'a anim_world =
  temp_dir :: string
  write_file :: "string \<Rightarrow> string \<Rightarrow> exn option"
  convert_animation_file_to_proto :: "string \<Rightarrow> string \<Rightarrow> exn + 'a"
  upload_animated_move :: "'a \<Rightarrow> string \<Rightarrow> exn option"

datatype 'a anim_call =
    Call_TemporaryDirectory
  | Call_write string string
  | Call_convert string
  | Call_info string
  | Call_upload_animated_move 'a string
  | Call_cleanup string

text \<open>\<^verbatim>\<open>os.path.join\<close> of two components (POSIX).\<close>

definition os_path_join :: "string \<Rightarrow> string \<Rightarrow> string" where
  "os_path_join a b =
     (if b \<noteq> [] \<and> hd b = CHR ''/'' then b
      else if a = [] \<or> last a = CHR ''/'' then a @ b
      else a @ ''/'' @ b)"

definition upload_animation ::
  "'a anim_world \<Rightarrow> string \<Rightarrow> string \<Rightarrow> result \<times> 'a anim_call list" where
  "upload_animation w animation_name animation_file_content =
     (let filename = os_path_join (temp_dir w) (animation_name @ ''.cha'');
          tr = [Call_TemporaryDirectory, Call_write filename animation_file_content]
      in case write_file w filename animation_file_content of
           Some e \<Rightarrow> (Inl e, tr @ [Call_cleanup (temp_dir w)])
         | None \<Rightarrow>
             (case convert_animation_file_to_proto w filename animation_file_content of
                Inl e \<Rightarrow>
                  (Inr (False, ''Failed to convert animation file to protobuf message: ''
                                 @ str_exn e),
                   tr @ [Call_convert filename, Call_cleanup (temp_dir w)])
              | Inr animation_pb \<Rightarrow>
                  let tr1 = tr @ [Call_convert filename,
                                  Call_info (''Uploading the name '' @ animation_name),
                                  Call_upload_animated_move animation_pb animation_name,
                                  Call_cleanup (temp_dir w)]
                  in case upload_animated_move w animation_pb animation_name of
                       Some e \<Rightarrow> (Inr (False, ''Failed to upload animation: '' @ str_exn e), tr1)
                     | None \<Rightarrow> (Inr (True, ''Success''), tr1)))"

section \<open>Vocabulary of the statements\<close>

text \<open>
  \<open>execution_started\<close>: the run gets as far as an accepted execute request (the robot is
  not estopped, \<open>data\<close> parses to \<open>c\<close>, the upload and the power-on return, and the
  execute request answers \<open>STATUS_OK\<close>).  \<open>started_calls\<close> is what has been called by
  then.
\<close>

definition execution_started ::
  "choreography_sequence_pb2 \<Rightarrow> world \<Rightarrow> string \<Rightarrow> ChoreographySequence \<Rightarrow> bool" where
  "execution_started pb w data c =
     (is_estopped w = Inr False \<and> Merge w data = Inr c \<and>
      upload_choreography w c True = None \<and> power_on w = None \<and>
      execute_choreography w (name c) (time_time w 0) 0 = Inr (STATUS_OK pb))"

definition uploaded_calls :: "string \<Rightarrow> ChoreographySequence \<Rightarrow> call list" where
  "uploaded_calls data c =
     [Call_is_estopped, Call_Merge data, Call_upload_choreography c True]"

definition started_calls :: "world \<Rightarrow> string \<Rightarrow> ChoreographySequence \<Rightarrow> call list" where
  "started_calls w data c =
     uploaded_calls data c @
     [Call_power_on, Call_time, Call_execute_choreography (name c) (time_time w 0) 0]"

text \<open>
  \<open>in_window w est k\<close>: the loop test of iteration \<open>k\<close> holds, that is, the elapsed time
  read there is under \<open>est + 0.2\<close>.  \<open>ongoing_sample pb w k\<close>: poll \<open>k\<close> answers, with
  one of the four ongoing states.  \<open>poll_calls w n\<close>: the calls of \<open>n\<close> iterations that
  each end in the sleep.
\<close>

definition in_window :: "world \<Rightarrow> real \<Rightarrow> nat \<Rightarrow> bool" where
  "in_window w est k = (time_time w (k + 2) - time_time w 1 < est + 0.2)"

definition ongoing_sample :: "choreography_sequence_pb2 \<Rightarrow> world \<Rightarrow> nat \<Rightarrow> bool" where
  "ongoing_sample pb w k =
     (case get_choreography_status w k of
        Inl e \<Rightarrow> False
      | Inr status \<Rightarrow> status \<in> set (ongoing_states pb))"

definition sample_calls :: "world \<Rightarrow> nat \<Rightarrow> call list" where
  "sample_calls w k =
     (case get_choreography_status w k of
        Inl e \<Rightarrow> []
      | Inr status \<Rightarrow> iteration_calls status)"

definition poll_calls :: "world \<Rightarrow> nat \<Rightarrow> nat \<Rightarrow> call list" where
  "poll_calls w k n = concat (map (sample_calls w) [k..<k + n])"

text \<open>
  Reading a decimal numeral back, to say that a message carries a status value:
  \<open>decimal_int\<close> is the integer a string of digits, with an optional leading minus sign,
  denotes.
\<close>

definition digit_value :: "char \<Rightarrow> nat" where
  "digit_value ch = of_char ch - 48"

definition decimal_nat :: "string \<Rightarrow> nat" where
  "decimal_nat cs = foldl (\<lambda>a ch. 10 * a + digit_value ch) 0 cs"

definition decimal_int :: "string \<Rightarrow> int" where
  "decimal_int cs =
     (if cs \<noteq> [] \<and> hd cs = CHR ''-'' then - int (decimal_nat (tl cs))
      else int (decimal_nat cs))"

section \<open>Concrete runs\<close>

text \<open>
  A routine of three moves of ten slices each at 300 slices per minute (six seconds), a
  routine without moves, and worlds to run them in.  In \<open>dancing_world\<close> every poll
  answers \<open>STATUS_DANCING\<close> and the clock advances three seconds per reading; the other
  worlds change one collaborator each.
\<close>

definition demo_move :: MoveParams where
  "demo_move = \<lparr>move_type = ''rotate_body'', requested_slices = 10\<rparr>"

definition demo_routine :: ChoreographySequence where
  "demo_routine =
     \<lparr>name = ''demo'', slices_per_minute = 300, moves = [demo_move, demo_move, demo_move]\<rparr>"

definition empty_routine :: ChoreographySequence where
  "empty_routine = \<lparr>name = ''empty'', slices_per_minute = 300, moves = []\<rparr>"

definition demo_Merge :: "string \<Rightarrow> exn + ChoreographySequence" where
  "demo_Merge data =
     (if data = ''routine'' then Inr demo_routine
      else if data = ''no moves'' then Inr empty_routine
      else Inl (OtherException ''1:1 : Expected identifier or number.''))"

definition dancing_world :: world where
  "dancing_world =
     \<lparr>is_estopped = Inr False,
      Merge = demo_Merge,
      upload_choreography = (\<lambda>c non_strict. None),
      power_on = None,
      execute_choreography = (\<lambda>n t s. Inr 1),
      time_time = (\<lambda>n. 3 * real n),
      get_choreography_status = (\<lambda>k. Inr 1)\<rparr>"

definition completing_world :: world where
  "completing_world =
     dancing_world\<lparr>time_time := real,
                   get_choreography_status := (\<lambda>k. if k < 2 then Inr 1 else Inr 2)\<rparr>"

definition estopped_world :: world where
  "estopped_world = dancing_world\<lparr>is_estopped := Inr True\<rparr>"

definition unlicensed_world :: world where
  "unlicensed_world =
     dancing_world\<lparr>upload_choreography :=
       (\<lambda>c non_strict. Some (UnauthenticatedError ''Unauthenticated''))\<rparr>"

definition rejected_world :: world where
  "rejected_world =
     dancing_world\<lparr>upload_choreography :=
       (\<lambda>c non_strict. Some (ResponseError [''bad move; '', ''bad slice''] ''Rejected''))\<rparr>"

definition unreachable_world :: world where
  "unreachable_world =
     dancing_world\<lparr>upload_choreography :=
       (\<lambda>c non_strict. Some (OtherException ''Deadline exceeded''))\<rparr>"

definition broken_clip_world :: "nat anim_world" where
  "broken_clip_world =
     \<lparr>temp_dir = ''/tmp/tmpq3'',
      write_file = (\<lambda>filename content. None),
      convert_animation_file_to_proto = (\<lambda>filename content. Inl (OtherException ''bad header'')),
      upload_animated_move = (\<lambda>animation_pb animation_name. None)\<rparr>"

text \<open>
  \<open>prepping_world\<close>: the first poll answers \<open>STATUS_PREPPING\<close>, the later ones
  \<open>STATUS_DANCING\<close>.  \<open>interrupted_world\<close>: the clock advances one second per reading
  and the second poll answers 6 (\<open>STATUS_INTERRUPTED\<close>).  \<open>estop_unreachable_world\<close>:
  the estop query itself raises.
\<close>

definition prepping_world :: world where
  "prepping_world =
     dancing_world\<lparr>get_choreography_status := (\<lambda>k. if k = 0 then Inr 3 else Inr 1)\<rparr>"

definition interrupted_world :: world where
  "interrupted_world =
     dancing_world\<lparr>time_time := real,
                   get_choreography_status := (\<lambda>k. if k = 0 then Inr 1 else Inr 6)\<rparr>"

definition estop_unreachable_world :: world where
  "estop_unreachable_world =
     dancing_world\<lparr>is_estopped := Inl (OtherException ''Deadline exceeded'')\<rparr>"

lemmas demo_defs =
  demo_move_def demo_routine_def empty_routine_def demo_Merge_def dancing_world_def bosdyn_pb2_def

section \<open>Lemmas on the estimate\<close>

lemma estimate_loop_acc:
  "spm \<noteq> 0 \<Longrightarrow>
   estimate_loop spm ms (t, e) =
     Inr (t + sum_list (map requested_slices ms),
          if ms = [] then e
          else Some (real_of_int (t + sum_list (map requested_slices ms)) / spm * 60))"
  by (induction ms arbitrary: t e) (simp_all add: Let_def add.assoc)

lemma estimate_loop_zero_rate:
  "ms \<noteq> [] \<Longrightarrow> estimate_loop 0 ms st = Inl (ZeroDivisionError ''float division by zero'')"
  by (cases ms; cases st) simp_all

lemma estimated_time_seconds_eq:
  "estimated_time_seconds c =
     (if moves c = [] then Inr None
      else if slices_per_minute c = 0 then Inl (ZeroDivisionError ''float division by zero'')
      else Inr (Some (real_of_int (total_slices c) / slices_per_minute c * 60)))"
  by (simp add: estimated_time_seconds_def total_slices_def estimate_loop_acc
      estimate_loop_zero_rate)

lemma demo_estimate: "estimated_time_seconds demo_routine = Inr (Some 6)"
  by (simp add: estimated_time_seconds_def demo_defs)

section \<open>Lemmas on the polling loop\<close>

lemma poll_calls_Suc: "poll_calls w k (Suc n) = sample_calls w k @ poll_calls w (Suc k) n"
proof -
  have "[k..<k + Suc n] = k # [Suc k..<Suc k + n]"
    by (subst upt_rec) simp
  then show ?thesis
    unfolding poll_calls_def by simp
qed

lemma poll_calls_2: "poll_calls w 0 2 = sample_calls w 0 @ sample_calls w (Suc 0)"
proof -
  have "[0..<2] = [0, Suc 0]"
    by (simp add: upt_rec numeral_2_eq_2)
  then show ?thesis
    by (simp add: poll_calls_def)
qed

text \<open>\<open>n\<close> iterations that each see an ongoing sample inside the window.\<close>

lemma poll_loop_ongoing:
  "(\<forall>j<n. time_time w (k + j + 2) - start < est + 0.2 \<and> ongoing_sample pb w (k + j)) \<Longrightarrow>
   poll_loop pb w start est k tr = poll_loop pb w start est (k + n) (tr @ poll_calls w k n)"
proof (induction n arbitrary: k tr)
  case 0
  then show ?case by (simp add: poll_calls_def)
next
  case (Suc n)
  from Suc.prems have now: "time_time w (k + 2) - start < est + 0.2" "ongoing_sample pb w k"
    by force+
  from now(2) obtain s
    where s: "get_choreography_status w k = Inr s" "\<not> check_dance_completed pb s"
    by (auto simp: ongoing_sample_def check_dance_completed_def split: sum.splits)
  have later: "\<forall>j<n. time_time w (Suc k + j + 2) - start < est + 0.2 \<and>
                     ongoing_sample pb w (Suc k + j)"
    using Suc.prems by (metis Suc_less_eq add_Suc_right add_Suc)
  have "poll_loop pb w start est k tr = poll_loop pb w start est (Suc k) (tr @ iteration_calls s)"
    using now s by (subst poll_loop.simps) simp
  also have "\<dots> = poll_loop pb w start est (Suc k + n)
                     ((tr @ iteration_calls s) @ poll_calls w (Suc k) n)"
    by (rule Suc.IH [OF later])
  also have "(tr @ iteration_calls s) @ poll_calls w (Suc k) n = tr @ poll_calls w k (Suc n)"
    by (simp add: poll_calls_Suc sample_calls_def s)
  finally show ?case by simp
qed

lemma poll_loop_ongoing_from_start:
  assumes "\<forall>j<n. in_window w est j \<and> ongoing_sample pb w j"
  shows "poll_loop pb w (time_time w 1) est 0 tr =
         poll_loop pb w (time_time w 1) est n (tr @ poll_calls w 0 n)"
  using poll_loop_ongoing [of n w 0 "time_time w 1" est pb tr] assms
  by (simp add: in_window_def)

lemma poll_loop_window_closed:
  "\<not> time_time w (k + 2) - start < est + 0.2 \<Longrightarrow>
   poll_loop pb w start est k tr = Some (Inl (CommandTimedOutError []), tr @ [Call_time])"
  by (subst poll_loop.simps) simp

lemma poll_loop_terminal:
  "time_time w (k + 2) - start < est + 0.2 \<Longrightarrow> get_choreography_status w k = Inr s \<Longrightarrow>
   check_dance_completed pb s \<Longrightarrow>
   poll_loop pb w start est k tr =
     Some (Inr (if s = STATUS_COMPLETED_SEQUENCE pb then (True, ''success'')
                else (False, ''call to execute_choreography returned unsuccessful status: ''
                               @ str_int s)),
           tr @ [Call_time, Call_get_choreography_status, Call_logger_info (str_int s)])"
  by (subst poll_loop.simps) simp

lemma poll_loop_raises:
  "time_time w (k + 2) - start < est + 0.2 \<Longrightarrow> get_choreography_status w k = Inl e \<Longrightarrow>
   poll_loop pb w start est k tr = Some (Inl e, tr @ [Call_time, Call_get_choreography_status])"
  by (subst poll_loop.simps) simp

section \<open>Lemmas on \<^verbatim>\<open>execute_dance\<close>\<close>

lemma execute_dance_started:
  assumes "execution_started pb w data c"
  shows "execute_dance pb w data =
     (case estimated_time_seconds c of
        Inl e \<Rightarrow> Some (handlers (Inl e), started_calls w data c)
      | Inr None \<Rightarrow>
          Some (handlers (Inl (UnboundLocalError
                  ''local variable 'estimated_time_seconds' referenced before assignment'')),
                started_calls w data c @ [Call_time, Call_time])
      | Inr (Some est) \<Rightarrow>
          map_option (\<lambda>(r, tr'). (handlers r, tr'))
            (poll_loop pb w (time_time w 1) est 0 (started_calls w data c @ [Call_time])))"
  using assms
  by (simp add: execution_started_def execute_dance_def try_body_def started_calls_def
      uploaded_calls_def Let_def split: sum.splits option.splits)

lemma warnings_msg_concat:
  "warnings_msg warnings =
     ''Choreography sequence upload failed. The following warnings were produced: ''
       @ concat warnings"
proof -
  have fold_append: "foldl (\<lambda>error_msg warn. error_msg @ warn) acc ws = acc @ concat ws"
    for acc :: string and ws
    by (induction ws arbitrary: acc) simp_all
  show ?thesis
    unfolding warnings_msg_def by (rule fold_append)
qed

lemma license_msg_mentions_license: "sublist ''license'' license_msg"
proof -
  have "license_msg = ''The robot '' @ ''license'' @
          '' must contain 'choreography' permissions to upload and execute dances.''"
    by (simp add: license_msg_def)
  then show ?thesis
    by (metis sublist_appendI)
qed

lemma str_int_1: "str_int 1 = ''1''"
  by (simp add: str_int_def str_nat.simps digit_char_def)

lemma str_int_2: "str_int 2 = ''2''"
  by (simp add: str_int_def str_nat.simps digit_char_def)

lemma all_less_2: "(\<forall>j<2. P j) \<longleftrightarrow> P 0 \<and> P (Suc 0)"
  by (auto simp: less_2_cases_iff)

section \<open>Lemmas on the decimal rendering\<close>

lemma digit_value_digit_char: "d < 10 \<Longrightarrow> digit_value (digit_char d) = d"
  by (auto simp: digit_char_def digit_value_def)

lemma digit_char_not_minus: "digit_char d \<noteq> CHR ''-''"
  by (simp add: digit_char_def)

lemma decimal_nat_str_nat: "decimal_nat (str_nat n) = n"
proof (induction n rule: str_nat.induct)
  case (1 n)
  show ?case
  proof (cases "n < 10")
    case True
    then show ?thesis
      by (subst str_nat.simps) (simp add: decimal_nat_def digit_value_digit_char)
  next
    case False
    then have "decimal_nat (str_nat (n div 10)) = n div 10"
      using "1.IH" by simp
    then show ?thesis
      using False
      by (subst str_nat.simps) (simp add: decimal_nat_def digit_value_digit_char)
  qed
qed

lemma str_nat_head: "str_nat n \<noteq> [] \<and> hd (str_nat n) \<noteq> CHR ''-''"
proof (induction n rule: str_nat.induct)
  case (1 n)
  show ?case
  proof (cases "n < 10")
    case True
    then show ?thesis
      by (subst (1 2) str_nat.simps) (simp add: digit_char_not_minus)
  next
    case False
    with "1.IH" show ?thesis
      by (subst (1 2) str_nat.simps) simp
  qed
qed

lemma decimal_int_str_int: "decimal_int (str_int i) = i"
  using str_nat_head [of "nat i"]
  by (simp add: decimal_int_def str_int_def decimal_nat_str_nat)

lemma str_int_3: "str_int 3 = ''3''"
  by (simp add: str_int_def str_nat.simps digit_char_def)

lemma str_int_6: "str_int 6 = ''6''"
  by (simp add: str_int_def str_nat.simps digit_char_def)

lemma str_int_more: "str_int 0 = ''0''" "str_int 907 = ''907''" "str_int (- 45) = ''-45''"
  by (simp_all add: str_int_def str_nat.simps digit_char_def)

section \<open>Lemmas on the calls of the loop\<close>

lemma upt_0_1: "[0..<1] = [0]"
  by simp

lemma upt_0_2: "[0..<2] = [0, Suc 0]"
  by (simp add: upt_rec numeral_2_eq_2)

lemma all_less_1: "(\<forall>j<1. P j) \<longleftrightarrow> P (0::nat)"
  by simp

lemma poll_calls_spelled:
  assumes "\<forall>j<n. get_choreography_status w j = Inr (ss j)"
  shows "poll_calls w 0 n =
     concat (map (\<lambda>j. [Call_time, Call_get_choreography_status,
                        Call_logger_info (str_int (ss j)), Call_sleep 0.2]) [0..<n])"
proof -
  have eq: "map (sample_calls w) [0..<n] =
        map (\<lambda>j. [Call_time, Call_get_choreography_status,
                   Call_logger_info (str_int (ss j)), Call_sleep 0.2]) [0..<n]"
    using assms by (intro map_cong) (auto simp: sample_calls_def iteration_calls_def)
  show ?thesis
    unfolding poll_calls_def by (simp only: add_0 eq)
qed

lemma ongoing_polls_spelled:
  assumes "\<forall>j<n. time_time w (j + 2) - time_time w 1 < est + 0.2 \<and>
                  get_choreography_status w j = Inr (ss j) \<and>
                  ss j \<in> {STATUS_PREPPING pb, STATUS_DANCING pb,
                           STATUS_WAITING_FOR_START_TIME pb, STATUS_VALIDATING pb}"
  shows "\<forall>j<n. in_window w est j \<and> ongoing_sample pb w j"
  using assms by (simp add: in_window_def ongoing_sample_def ongoing_states_def)

section \<open>The claims\<close>

subsection \<open>Timeout\<close>

text \<open>
  Claim C1.  Take a run that gets as far as polling with estimate \<open>est\<close>, in which the
  first \<open>n\<close> loop tests find the elapsed time under \<open>est + 0.2\<close> and the \<open>n\<close> polls all
  answer an ongoing status (\<open>ss j\<close> at poll \<open>j\<close>), and in which the next loop test finds
  the window over.  Then \<^verbatim>\<open>execute_dance\<close> returns no tuple: it raises
  \<^verbatim>\<open>CommandTimedOutError\<close>.  Up to there every pass of the loop is exactly one clock
  reading, one status request, one log line and one sleep of 0.2 seconds, and the last
  call is the clock reading that ends the loop.
\<close>

theorem timeout_raised_when_window_elapses:
  assumes "execution_started pb w data c"
    and "estimated_time_seconds c = Inr (Some est)"
    and "\<forall>j<n. time_time w (j + 2) - time_time w 1 < est + 0.2 \<and>
                get_choreography_status w j = Inr (ss j) \<and>
                ss j \<in> {STATUS_PREPPING pb, STATUS_DANCING pb,
                         STATUS_WAITING_FOR_START_TIME pb, STATUS_VALIDATING pb}"
    and "\<not> time_time w (n + 2) - time_time w 1 < est + 0.2"
  shows "execute_dance pb w data =
     Some (Inl (CommandTimedOutError
             ''Call to execute_choreography did not return completion state in stipulated time''),
           [Call_is_estopped, Call_Merge data, Call_upload_choreography c True,
            Call_power_on, Call_time,
            Call_execute_choreography (name c) (time_time w 0) 0, Call_time] @
           concat (map (\<lambda>j. [Call_time, Call_get_choreography_status,
                              Call_logger_info (str_int (ss j)), Call_sleep 0.2]) [0..<n]) @
           [Call_time])"
proof -
  have ongoing: "\<forall>j<n. in_window w est j \<and> ongoing_sample pb w j"
    by (rule ongoing_polls_spelled [OF assms(3)])
  have calls: "poll_calls w 0 n =
     concat (map (\<lambda>j. [Call_time, Call_get_choreography_status,
                        Call_logger_info (str_int (ss j)), Call_sleep 0.2]) [0..<n])"
    using assms(3) by (intro poll_calls_spelled) simp
  have "poll_loop pb w (time_time w 1) est 0 (started_calls w data c @ [Call_time]) =
        Some (Inl (CommandTimedOutError []),
              (started_calls w data c @ [Call_time]) @ poll_calls w 0 n @ [Call_time])"
    using assms(4) poll_loop_ongoing_from_start [OF ongoing]
    by (simp add: poll_loop_window_closed)
  then show ?thesis
    by (simp add: execute_dance_started [OF assms(1)] assms(2) calls started_calls_def
        uploaded_calls_def)
qed

theorem timeout_raised_when_window_elapses_witness:
  "execution_started bosdyn_pb2 prepping_world ''routine'' demo_routine \<and>
   estimated_time_seconds demo_routine = Inr (Some 6) \<and>
   time_time prepping_world 2 - time_time prepping_world 1 < 6 + 0.2 \<and>
   get_choreography_status prepping_world 0 = Inr 3 \<and>
   time_time prepping_world 3 - time_time prepping_world 1 < 6 + 0.2 \<and>
   get_choreography_status prepping_world 1 = Inr 1 \<and>
   \<not> time_time prepping_world 4 - time_time prepping_world 1 < 6 + 0.2 \<and>
   execute_dance bosdyn_pb2 prepping_world ''routine'' =
     Some (Inl (CommandTimedOutError
             ''Call to execute_choreography did not return completion state in stipulated time''),
           [Call_is_estopped, Call_Merge ''routine'', Call_upload_choreography demo_routine True,
            Call_power_on, Call_time, Call_execute_choreography ''demo'' 0 0, Call_time,
            Call_time, Call_get_choreography_status, Call_logger_info ''3'', Call_sleep 0.2,
            Call_time, Call_get_choreography_status, Call_logger_info ''1'', Call_sleep 0.2,
            Call_time])"
proof -
  have h1: "execution_started bosdyn_pb2 prepping_world ''routine'' demo_routine"
    by (simp add: execution_started_def prepping_world_def demo_defs)
  have h2: "estimated_time_seconds demo_routine = Inr (Some 6)"
    by (rule demo_estimate)
  have h3: "\<forall>j<2. time_time prepping_world (j + 2) - time_time prepping_world 1 < 6 + 0.2 \<and>
              get_choreography_status prepping_world j = Inr (if j = 0 then 3 else 1) \<and>
              (if j = 0 then 3 else 1) \<in>
                {STATUS_PREPPING bosdyn_pb2, STATUS_DANCING bosdyn_pb2,
                 STATUS_WAITING_FOR_START_TIME bosdyn_pb2, STATUS_VALIDATING bosdyn_pb2}"
    by (simp add: all_less_2 prepping_world_def demo_defs)
  have h4: "\<not> time_time prepping_world (2 + 2) - time_time prepping_world 1 < 6 + 0.2"
    by (simp add: prepping_world_def demo_defs)
  have facts: "time_time prepping_world 2 - time_time prepping_world 1 < 6 + 0.2"
    "get_choreography_status prepping_world 0 = Inr 3"
    "time_time prepping_world 3 - time_time prepping_world 1 < 6 + 0.2"
    "get_choreography_status prepping_world 1 = Inr 1"
    "\<not> time_time prepping_world 4 - time_time prepping_world 1 < 6 + 0.2"
    by (simp_all add: prepping_world_def demo_defs)
  have run: "execute_dance bosdyn_pb2 prepping_world ''routine'' =
     Some (Inl (CommandTimedOutError
             ''Call to execute_choreography did not return completion state in stipulated time''),
           [Call_is_estopped, Call_Merge ''routine'', Call_upload_choreography demo_routine True,
            Call_power_on, Call_time, Call_execute_choreography ''demo'' 0 0, Call_time,
            Call_time, Call_get_choreography_status, Call_logger_info ''3'', Call_sleep 0.2,
            Call_time, Call_get_choreography_status, Call_logger_info ''1'', Call_sleep 0.2,
            Call_time])"
    using timeout_raised_when_window_elapses
            [where ss = "\<lambda>j. if j = 0 then 3 else 1", OF h1 h2 h3 h4]
    by (simp add: upt_0_2 str_int_1 str_int_3 prepping_world_def demo_defs)
  from h1 h2 facts run show ?thesis
    by simp
qed

subsection \<open>Terminal samples\<close>

text \<open>
  Claim C2.  \<^verbatim>\<open>_check_dance_completed\<close> holds of a status exactly when it is none of
  prepping, dancing, waiting-for-start-time and validating.  In a run that gets as far as
  polling, where \<open>n\<close> polls inside the window answer an ongoing status and poll \<open>n\<close>, still
  inside the window, answers a terminal status \<open>s\<close>: the result is \<open>(True, success)\<close> if
  \<open>s\<close> is the completed-sequence status and otherwise \<open>False\<close> with a message that ends
  in the decimal numeral of \<open>s\<close> (reading the numeral back gives \<open>s\<close>); and the log line
  of that sample is the last call made (no sleep, no clock reading and no poll follows it).
\<close>

theorem first_terminal_sample_decides:
  "(check_dance_completed pb status \<longleftrightarrow>
      status \<notin> {STATUS_PREPPING pb, STATUS_DANCING pb, STATUS_WAITING_FOR_START_TIME pb,
                 STATUS_VALIDATING pb}) \<and>
   (execution_started pb w data c \<and> estimated_time_seconds c = Inr (Some est) \<and>
    (\<forall>j<n. time_time w (j + 2) - time_time w 1 < est + 0.2 \<and>
            get_choreography_status w j = Inr (ss j) \<and>
            ss j \<in> {STATUS_PREPPING pb, STATUS_DANCING pb,
                     STATUS_WAITING_FOR_START_TIME pb, STATUS_VALIDATING pb}) \<and>
    time_time w (n + 2) - time_time w 1 < est + 0.2 \<and>
    get_choreography_status w n = Inr s \<and>
    s \<notin> {STATUS_PREPPING pb, STATUS_DANCING pb, STATUS_WAITING_FOR_START_TIME pb,
           STATUS_VALIDATING pb} \<longrightarrow>
    execute_dance pb w data =
      Some (Inr (if s = STATUS_COMPLETED_SEQUENCE pb then (True, ''success'')
                 else (False, ''call to execute_choreography returned unsuccessful status: ''
                                @ str_int s)),
            [Call_is_estopped, Call_Merge data, Call_upload_choreography c True,
             Call_power_on, Call_time,
             Call_execute_choreography (name c) (time_time w 0) 0, Call_time] @
            concat (map (\<lambda>j. [Call_time, Call_get_choreography_status,
                               Call_logger_info (str_int (ss j)), Call_sleep 0.2]) [0..<n]) @
            [Call_time, Call_get_choreography_status, Call_logger_info (str_int s)])) \<and>
   decimal_int (str_int s) = s"
proof (intro conjI impI)
  show "check_dance_completed pb status \<longleftrightarrow>
      status \<notin> {STATUS_PREPPING pb, STATUS_DANCING pb, STATUS_WAITING_FOR_START_TIME pb,
                 STATUS_VALIDATING pb}"
    by (simp add: check_dance_completed_def ongoing_states_def)
next
  show "decimal_int (str_int s) = s"
    by (rule decimal_int_str_int)
next
  assume a: "execution_started pb w data c \<and> estimated_time_seconds c = Inr (Some est) \<and>
    (\<forall>j<n. time_time w (j + 2) - time_time w 1 < est + 0.2 \<and>
            get_choreography_status w j = Inr (ss j) \<and>
            ss j \<in> {STATUS_PREPPING pb, STATUS_DANCING pb,
                     STATUS_WAITING_FOR_START_TIME pb, STATUS_VALIDATING pb}) \<and>
    time_time w (n + 2) - time_time w 1 < est + 0.2 \<and>
    get_choreography_status w n = Inr s \<and>
    s \<notin> {STATUS_PREPPING pb, STATUS_DANCING pb, STATUS_WAITING_FOR_START_TIME pb,
           STATUS_VALIDATING pb}"
  then have st: "execution_started pb w data c"
    and est: "estimated_time_seconds c = Inr (Some est)"
    and win: "time_time w (n + 2) - time_time w 1 < est + 0.2"
    and s: "get_choreography_status w n = Inr s"
    by simp_all
  from a have terminal: "check_dance_completed pb s"
    by (simp add: check_dance_completed_def ongoing_states_def)
  from a have polls: "\<forall>j<n. time_time w (j + 2) - time_time w 1 < est + 0.2 \<and>
            get_choreography_status w j = Inr (ss j) \<and>
            ss j \<in> {STATUS_PREPPING pb, STATUS_DANCING pb,
                     STATUS_WAITING_FOR_START_TIME pb, STATUS_VALIDATING pb}"
    by blast
  have ongoing: "\<forall>j<n. in_window w est j \<and> ongoing_sample pb w j"
    by (rule ongoing_polls_spelled [OF polls])
  have calls: "poll_calls w 0 n =
     concat (map (\<lambda>j. [Call_time, Call_get_choreography_status,
                        Call_logger_info (str_int (ss j)), Call_sleep 0.2]) [0..<n])"
    using polls by (intro poll_calls_spelled) simp
  have "poll_loop pb w (time_time w 1) est 0 (started_calls w data c @ [Call_time]) =
        poll_loop pb w (time_time w 1) est n
          ((started_calls w data c @ [Call_time]) @ poll_calls w 0 n)"
    by (rule poll_loop_ongoing_from_start [OF ongoing])
  also have "\<dots> = Some (Inr (if s = STATUS_COMPLETED_SEQUENCE pb then (True, ''success'')
                else (False, ''call to execute_choreography returned unsuccessful status: ''
                               @ str_int s)),
           ((started_calls w data c @ [Call_time]) @ poll_calls w 0 n) @
           [Call_time, Call_get_choreography_status, Call_logger_info (str_int s)])"
    by (rule poll_loop_terminal [OF win s terminal])
  finally have "poll_loop pb w (time_time w 1) est 0 (started_calls w data c @ [Call_time]) =
      Some (Inr (if s = STATUS_COMPLETED_SEQUENCE pb then (True, ''success'')
                else (False, ''call to execute_choreography returned unsuccessful status: ''
                               @ str_int s)),
           ((started_calls w data c @ [Call_time]) @ poll_calls w 0 n) @
           [Call_time, Call_get_choreography_status, Call_logger_info (str_int s)])" .
  then show "execute_dance pb w data =
      Some (Inr (if s = STATUS_COMPLETED_SEQUENCE pb then (True, ''success'')
                 else (False, ''call to execute_choreography returned unsuccessful status: ''
                                @ str_int s)),
            [Call_is_estopped, Call_Merge data, Call_upload_choreography c True,
             Call_power_on, Call_time,
             Call_execute_choreography (name c) (time_time w 0) 0, Call_time] @
            concat (map (\<lambda>j. [Call_time, Call_get_choreography_status,
                               Call_logger_info (str_int (ss j)), Call_sleep 0.2]) [0..<n]) @
            [Call_time, Call_get_choreography_status, Call_logger_info (str_int s)])"
    by (simp add: execute_dance_started [OF st] est calls started_calls_def uploaded_calls_def)
qed

theorem first_terminal_sample_decides_witness:
  "execution_started bosdyn_pb2 completing_world ''routine'' demo_routine \<and>
   estimated_time_seconds demo_routine = Inr (Some 6) \<and>
   time_time completing_world 2 - time_time completing_world 1 < 6 + 0.2 \<and>
   get_choreography_status completing_world 0 = Inr 1 \<and>
   time_time completing_world 3 - time_time completing_world 1 < 6 + 0.2 \<and>
   get_choreography_status completing_world 1 = Inr 1 \<and>
   time_time completing_world 4 - time_time completing_world 1 < 6 + 0.2 \<and>
   get_choreography_status completing_world 2 = Inr 2 \<and>
   execute_dance bosdyn_pb2 completing_world ''routine'' =
     Some (Inr (True, ''success''),
           [Call_is_estopped, Call_Merge ''routine'', Call_upload_choreography demo_routine True,
            Call_power_on, Call_time, Call_execute_choreography ''demo'' 0 0, Call_time,
            Call_time, Call_get_choreography_status, Call_logger_info ''1'', Call_sleep 0.2,
            Call_time, Call_get_choreography_status, Call_logger_info ''1'', Call_sleep 0.2,
            Call_time, Call_get_choreography_status, Call_logger_info ''2'']) \<and>
   execution_started bosdyn_pb2 interrupted_world ''routine'' demo_routine \<and>
   time_time interrupted_world 2 - time_time interrupted_world 1 < 6 + 0.2 \<and>
   get_choreography_status interrupted_world 0 = Inr 1 \<and>
   time_time interrupted_world 3 - time_time interrupted_world 1 < 6 + 0.2 \<and>
   get_choreography_status interrupted_world 1 = Inr 6 \<and>
   execute_dance bosdyn_pb2 interrupted_world ''routine'' =
     Some (Inr (False, ''call to execute_choreography returned unsuccessful status: 6''),
           [Call_is_estopped, Call_Merge ''routine'', Call_upload_choreography demo_routine True,
            Call_power_on, Call_time, Call_execute_choreography ''demo'' 0 0, Call_time,
            Call_time, Call_get_choreography_status, Call_logger_info ''1'', Call_sleep 0.2,
            Call_time, Call_get_choreography_status, Call_logger_info ''6''])"
proof -
  have h2: "estimated_time_seconds demo_routine = Inr (Some 6)"
    by (rule demo_estimate)
  have c1: "execution_started bosdyn_pb2 completing_world ''routine'' demo_routine"
    by (simp add: execution_started_def completing_world_def demo_defs)
  have cf: "time_time completing_world 2 - time_time completing_world 1 < 6 + 0.2"
    "get_choreography_status completing_world 0 = Inr 1"
    "time_time completing_world 3 - time_time completing_world 1 < 6 + 0.2"
    "get_choreography_status completing_world 1 = Inr 1"
    "time_time completing_world 4 - time_time completing_world 1 < 6 + 0.2"
    "get_choreography_status completing_world 2 = Inr 2"
    by (simp_all add: completing_world_def demo_defs)
  have cprem: "execution_started bosdyn_pb2 completing_world ''routine'' demo_routine \<and>
    estimated_time_seconds demo_routine = Inr (Some 6) \<and>
    (\<forall>j<2. time_time completing_world (j + 2) - time_time completing_world 1 < 6 + 0.2 \<and>
            get_choreography_status completing_world j = Inr 1 \<and>
            1 \<in> {STATUS_PREPPING bosdyn_pb2, STATUS_DANCING bosdyn_pb2,
                  STATUS_WAITING_FOR_START_TIME bosdyn_pb2, STATUS_VALIDATING bosdyn_pb2}) \<and>
    time_time completing_world (2 + 2) - time_time completing_world 1 < 6 + 0.2 \<and>
    get_choreography_status completing_world 2 = Inr 2 \<and>
    2 \<notin> {STATUS_PREPPING bosdyn_pb2, STATUS_DANCING bosdyn_pb2,
           STATUS_WAITING_FOR_START_TIME bosdyn_pb2, STATUS_VALIDATING bosdyn_pb2}"
    using c1 h2 by (simp add: all_less_2 completing_world_def demo_defs)
  have crun: "execute_dance bosdyn_pb2 completing_world ''routine'' =
     Some (Inr (True, ''success''),
           [Call_is_estopped, Call_Merge ''routine'', Call_upload_choreography demo_routine True,
            Call_power_on, Call_time, Call_execute_choreography ''demo'' 0 0, Call_time,
            Call_time, Call_get_choreography_status, Call_logger_info ''1'', Call_sleep 0.2,
            Call_time, Call_get_choreography_status, Call_logger_info ''1'', Call_sleep 0.2,
            Call_time, Call_get_choreography_status, Call_logger_info ''2''])"
    using first_terminal_sample_decides
            [where pb = bosdyn_pb2 and w = completing_world and data = "''routine''"
               and c = demo_routine and est = 6 and n = 2 and ss = "\<lambda>j. 1" and s = 2,
             THEN conjunct2, THEN conjunct1, THEN mp, OF cprem]
    by (simp add: upt_0_2 str_int_1 str_int_2 completing_world_def demo_defs)
  have i1: "execution_started bosdyn_pb2 interrupted_world ''routine'' demo_routine"
    by (simp add: execution_started_def interrupted_world_def demo_defs)
  have ifacts: "time_time interrupted_world 2 - time_time interrupted_world 1 < 6 + 0.2"
    "get_choreography_status interrupted_world 0 = Inr 1"
    "time_time interrupted_world 3 - time_time interrupted_world 1 < 6 + 0.2"
    "get_choreography_status interrupted_world 1 = Inr 6"
    by (simp_all add: interrupted_world_def demo_defs)
  have iprem: "execution_started bosdyn_pb2 interrupted_world ''routine'' demo_routine \<and>
    estimated_time_seconds demo_routine = Inr (Some 6) \<and>
    (\<forall>j<1. time_time interrupted_world (j + 2) - time_time interrupted_world 1 < 6 + 0.2 \<and>
            get_choreography_status interrupted_world j = Inr 1 \<and>
            1 \<in> {STATUS_PREPPING bosdyn_pb2, STATUS_DANCING bosdyn_pb2,
                  STATUS_WAITING_FOR_START_TIME bosdyn_pb2, STATUS_VALIDATING bosdyn_pb2}) \<and>
    time_time interrupted_world (1 + 2) - time_time interrupted_world 1 < 6 + 0.2 \<and>
    get_choreography_status interrupted_world 1 = Inr 6 \<and>
    6 \<notin> {STATUS_PREPPING bosdyn_pb2, STATUS_DANCING bosdyn_pb2,
           STATUS_WAITING_FOR_START_TIME bosdyn_pb2, STATUS_VALIDATING bosdyn_pb2}"
    using i1 h2 by (simp add: interrupted_world_def demo_defs)
  have irun: "execute_dance bosdyn_pb2 interrupted_world ''routine'' =
     Some (Inr (False, ''call to execute_choreography returned unsuccessful status: 6''),
           [Call_is_estopped, Call_Merge ''routine'', Call_upload_choreography demo_routine True,
            Call_power_on, Call_time, Call_execute_choreography ''demo'' 0 0, Call_time,
            Call_time, Call_get_choreography_status, Call_logger_info ''1'', Call_sleep 0.2,
            Call_time, Call_get_choreography_status, Call_logger_info ''6''])"
    using first_terminal_sample_decides
            [where pb = bosdyn_pb2 and w = interrupted_world and data = "''routine''"
               and c = demo_routine and est = 6 and n = 1 and ss = "\<lambda>j. 1" and s = 6,
             THEN conjunct2, THEN conjunct1, THEN mp, OF iprem]
    by (simp add: str_int_1 str_int_6 interrupted_world_def demo_defs)
  from c1 h2 cf crun i1 ifacts irun show ?thesis
    by simp
qed

subsection \<open>The estimate\<close>




text \<open>
  Claim C8.  For a routine with at least one move, what the loop leaves in
  \<^verbatim>\<open>estimated_time_seconds\<close>, having recomputed it in every iteration, is what one
  computation \<^verbatim>\<open>total_slices / slices_per_minute * 60\<close> after the loop gives; with rate
  zero both divisions raise.
\<close>

theorem in_loop_estimate_is_post_loop_estimate:
  "moves c \<noteq> [] \<Longrightarrow>
   estimated_time_seconds c =
     (case post_loop_estimate c of Inl e \<Rightarrow> Inl e | Inr est \<Rightarrow> Inr (Some est))"
  by (simp add: estimated_time_seconds_eq post_loop_estimate_def)

theorem in_loop_estimate_is_post_loop_estimate_witness:
  "moves demo_routine \<noteq> [] \<and> post_loop_estimate demo_routine = Inr 6 \<and>
   estimated_time_seconds demo_routine = Inr (Some 6)"
proof -
  have h: "moves demo_routine \<noteq> []"
    by (simp add: demo_defs)
  have p: "post_loop_estimate demo_routine = Inr 6"
    by (simp add: post_loop_estimate_def total_slices_def demo_defs)
  from in_loop_estimate_is_post_loop_estimate [OF h] h p show ?thesis
    by simp
qed

subsection \<open>The catch-all\<close>

text \<open>
  What the last \<^verbatim>\<open>try\<close> does with an exception, collaborator by collaborator.  The
  robot is not estopped, the text has parsed and the upload has returned; \<open>e\<close> is not a
  \<^verbatim>\<open>CommandTimedOutError\<close>.
\<close>

lemma handlers_generic:
  "(\<forall>s. e \<noteq> CommandTimedOutError s) \<Longrightarrow>
   handlers (Inl e) = Inr (False, ''Error executing dance: '' @ str_exn e)"
  by (cases e) simp_all

lemma power_on_error_is_generic_failure:
  assumes "is_estopped w = Inr False" "Merge w data = Inr c"
    and "upload_choreography w c True = None"
    and "power_on w = Some e" "\<forall>s. e \<noteq> CommandTimedOutError s"
  shows "execute_dance pb w data =
     Some (Inr (False, ''Error executing dance: '' @ str_exn e),
           [Call_is_estopped, Call_Merge data, Call_upload_choreography c True,
            Call_power_on])"
  using assms by (simp add: execute_dance_def try_body_def handlers_generic)

lemma execute_error_is_generic_failure:
  assumes "is_estopped w = Inr False" "Merge w data = Inr c"
    and "upload_choreography w c True = None" "power_on w = None"
    and "execute_choreography w (name c) (time_time w 0) 0 = Inl e"
    and "\<forall>s. e \<noteq> CommandTimedOutError s"
  shows "execute_dance pb w data =
     Some (Inr (False, ''Error executing dance: '' @ str_exn e),
           [Call_is_estopped, Call_Merge data, Call_upload_choreography c True,
            Call_power_on, Call_time,
            Call_execute_choreography (name c) (time_time w 0) 0])"
  using assms by (simp add: execute_dance_def try_body_def handlers_generic Let_def)

lemma zero_rate_is_generic_failure:
  assumes "execution_started pb w data c" "moves c \<noteq> []" "slices_per_minute c = 0"
  shows "execute_dance pb w data =
     Some (Inr (False, ''Error executing dance: float division by zero''),
           [Call_is_estopped, Call_Merge data, Call_upload_choreography c True,
            Call_power_on, Call_time,
            Call_execute_choreography (name c) (time_time w 0) 0])"
  using assms(2,3)
  by (simp add: execute_dance_started [OF assms(1)] estimated_time_seconds_eq
      started_calls_def uploaded_calls_def)

lemma poll_error_is_generic_failure:
  assumes "execution_started pb w data c"
    and "estimated_time_seconds c = Inr (Some est)"
    and "\<forall>j<n. time_time w (j + 2) - time_time w 1 < est + 0.2 \<and>
                get_choreography_status w j = Inr (ss j) \<and>
                ss j \<in> {STATUS_PREPPING pb, STATUS_DANCING pb,
                         STATUS_WAITING_FOR_START_TIME pb, STATUS_VALIDATING pb}"
    and "time_time w (n + 2) - time_time w 1 < est + 0.2"
    and "get_choreography_status w n = Inl e" "\<forall>s. e \<noteq> CommandTimedOutError s"
  shows "execute_dance pb w data =
     Some (Inr (False, ''Error executing dance: '' @ str_exn e),
           [Call_is_estopped, Call_Merge data, Call_upload_choreography c True,
            Call_power_on, Call_time,
            Call_execute_choreography (name c) (time_time w 0) 0, Call_time] @
           concat (map (\<lambda>j. [Call_time, Call_get_choreography_status,
                              Call_logger_info (str_int (ss j)), Call_sleep 0.2]) [0..<n]) @
           [Call_time, Call_get_choreography_status])"
proof -
  have ongoing: "\<forall>j<n. in_window w est j \<and> ongoing_sample pb w j"
    by (rule ongoing_polls_spelled [OF assms(3)])
  have calls: "poll_calls w 0 n =
     concat (map (\<lambda>j. [Call_time, Call_get_choreography_status,
                        Call_logger_info (str_int (ss j)), Call_sleep 0.2]) [0..<n])"
    using assms(3) by (intro poll_calls_spelled) simp
  have "poll_loop pb w (time_time w 1) est 0 (started_calls w data c @ [Call_time]) =
        poll_loop pb w (time_time w 1) est n
          ((started_calls w data c @ [Call_time]) @ poll_calls w 0 n)"
    by (rule poll_loop_ongoing_from_start [OF ongoing])
  also have "\<dots> = Some (Inl e, ((started_calls w data c @ [Call_time]) @ poll_calls w 0 n) @
                     [Call_time, Call_get_choreography_status])"
    by (rule poll_loop_raises [OF assms(4,5)])
  finally have "poll_loop pb w (time_time w 1) est 0 (started_calls w data c @ [Call_time]) =
        Some (Inl e, ((started_calls w data c @ [Call_time]) @ poll_calls w 0 n) @
                     [Call_time, Call_get_choreography_status])" .
  then show ?thesis
    by (simp add: execute_dance_started [OF assms(1)] assms(2) calls started_calls_def
        uploaded_calls_def handlers_generic [OF assms(6)])
qed

lemma raised_after_upload_is_timeout:
  assumes "is_estopped w = Inr False" "Merge w data = Inr c"
    and "upload_choreography w c True = None"
    and "execute_dance pb w data = Some (Inl x, tr)"
  shows "x = CommandTimedOutError
            ''Call to execute_choreography did not return completion state in stipulated time''"
proof -
  from assms obtain r
    where r: "try_body pb w c [Call_is_estopped, Call_Merge data,
                               Call_upload_choreography c True] = Some (r, tr)"
      "handlers r = Inl x"
    by (auto simp: execute_dance_def)
  then show ?thesis
    by (cases r rule: handlers.cases) auto
qed

text \<open>
  Claim C4 says that every exception outside the classified cases, at any step of
  \<^verbatim>\<open>execute_dance\<close>, is caught and turned into the result \<open>False\<close> with the message
  \<open>Error executing dance:\<close> followed by its text, and that only the timeout is raised
  to the caller.  The code does so for the last \<^verbatim>\<open>try\<close> only.  Here are two runs in
  which it does not: \<^verbatim>\<open>upload_choreography\<close> raises an exception that is neither an
  \<^verbatim>\<open>UnauthenticatedError\<close> nor a \<^verbatim>\<open>ResponseError\<close> (a transport error), and
  \<^verbatim>\<open>is_estopped\<close> itself raises.  In both the exception reaches the caller as it is, and
  no tuple is returned.
\<close>

theorem upload_transport_error_propagates:
  "is_estopped unreachable_world = Inr False \<and>
   Merge unreachable_world ''routine'' = Inr demo_routine \<and>
   upload_choreography unreachable_world demo_routine True =
     Some (OtherException ''Deadline exceeded'') \<and>
   execute_dance bosdyn_pb2 unreachable_world ''routine'' =
     Some (Inl (OtherException ''Deadline exceeded''),
           [Call_is_estopped, Call_Merge ''routine'', Call_upload_choreography demo_routine True]) \<and>
   execute_dance bosdyn_pb2 unreachable_world ''routine'' \<noteq>
     Some (Inr (False, ''Error executing dance: Deadline exceeded''),
           [Call_is_estopped, Call_Merge ''routine'', Call_upload_choreography demo_routine True]) \<and>
   is_estopped estop_unreachable_world = Inl (OtherException ''Deadline exceeded'') \<and>
   execute_dance bosdyn_pb2 estop_unreachable_world ''routine'' =
     Some (Inl (OtherException ''Deadline exceeded''), [Call_is_estopped])"
  by (simp add: execute_dance_def unreachable_world_def estop_unreachable_world_def demo_defs)

subsection \<open>Early exits\<close>

text \<open>
  Claim C5.  When \<^verbatim>\<open>is_estopped()\<close> answers true, \<^verbatim>\<open>execute_dance\<close> returns \<open>False\<close>
  with the message telling the operator to use an external E-Stop client, and the estop
  query is the only call it makes: no parse, no upload, no power-on, no execute request,
  no poll.
\<close>

theorem estopped_fails_without_service_call:
  "is_estopped w = Inr True \<Longrightarrow>
   execute_dance pb w data =
     Some (Inr (False, ''Robot is estopped. Please use an external E-Stop client''),
           [Call_is_estopped])"
  by (simp add: execute_dance_def estop_msg_def)

theorem estopped_fails_without_service_call_witness:
  "is_estopped estopped_world = Inr True \<and>
   execute_dance bosdyn_pb2 estopped_world ''routine'' =
     Some (Inr (False, ''Robot is estopped. Please use an external E-Stop client''),
           [Call_is_estopped])"
proof -
  have h: "is_estopped estopped_world = Inr True"
    by (simp add: estopped_world_def demo_defs)
  from estopped_fails_without_service_call [OF h] h show ?thesis
    by simp
qed

text \<open>
  Claim C6.  When \<^verbatim>\<open>upload_choreography\<close> raises an \<^verbatim>\<open>UnauthenticatedError\<close>, the result
  is \<open>False\<close> with the license message (it contains the word \<open>license\<close>), and the upload
  is the last call: no power-on and no execute request.  When it raises a
  \<^verbatim>\<open>ResponseError\<close> whose response carries warnings, the result is \<open>False\<close> with the
  fixed prefix followed by all warnings, concatenated in their order.
\<close>

theorem upload_errors_classified:
  "(is_estopped w = Inr False \<and> Merge w data = Inr c \<and>
    upload_choreography w c True = Some (UnauthenticatedError s) \<longrightarrow>
      execute_dance pb w data =
        Some (Inr (False,
          ''The robot license must contain 'choreography' permissions to upload and execute dances.''),
          [Call_is_estopped, Call_Merge data, Call_upload_choreography c True]) \<and>
      sublist ''license''
          ''The robot license must contain 'choreography' permissions to upload and execute dances.'') \<and>
   (is_estopped w = Inr False \<and> Merge w data = Inr c \<and>
    upload_choreography w c True = Some (ResponseError warnings s) \<longrightarrow>
      execute_dance pb w data =
        Some (Inr (False,
          ''Choreography sequence upload failed. The following warnings were produced: ''
            @ concat warnings),
          [Call_is_estopped, Call_Merge data, Call_upload_choreography c True]))"
  using license_msg_mentions_license
  by (simp add: execute_dance_def warnings_msg_concat license_msg_def)

theorem upload_errors_classified_witness:
  "is_estopped unlicensed_world = Inr False \<and>
   Merge unlicensed_world ''routine'' = Inr demo_routine \<and>
   upload_choreography unlicensed_world demo_routine True =
     Some (UnauthenticatedError ''Unauthenticated'') \<and>
   execute_dance bosdyn_pb2 unlicensed_world ''routine'' =
     Some (Inr (False,
       ''The robot license must contain 'choreography' permissions to upload and execute dances.''),
       [Call_is_estopped, Call_Merge ''routine'', Call_upload_choreography demo_routine True]) \<and>
   is_estopped rejected_world = Inr False \<and>
   Merge rejected_world ''routine'' = Inr demo_routine \<and>
   upload_choreography rejected_world demo_routine True =
     Some (ResponseError [''bad move; '', ''bad slice''] ''Rejected'') \<and>
   execute_dance bosdyn_pb2 rejected_world ''routine'' =
     Some (Inr (False,
       ''Choreography sequence upload failed. The following warnings were produced: bad move; bad slice''),
       [Call_is_estopped, Call_Merge ''routine'', Call_upload_choreography demo_routine True])"
proof -
  have a: "is_estopped unlicensed_world = Inr False"
    "Merge unlicensed_world ''routine'' = Inr demo_routine"
    "upload_choreography unlicensed_world demo_routine True =
       Some (UnauthenticatedError ''Unauthenticated'')"
    by (simp_all add: unlicensed_world_def demo_defs)
  have b: "is_estopped rejected_world = Inr False"
    "Merge rejected_world ''routine'' = Inr demo_routine"
    "upload_choreography rejected_world demo_routine True =
       Some (ResponseError [''bad move; '', ''bad slice''] ''Rejected'')"
    by (simp_all add: rejected_world_def demo_defs)
  from upload_errors_classified
         [of unlicensed_world "''routine''" demo_routine "''Unauthenticated''" bosdyn_pb2] a
  have first: "execute_dance bosdyn_pb2 unlicensed_world ''routine'' =
     Some (Inr (False,
       ''The robot license must contain 'choreography' permissions to upload and execute dances.''),
       [Call_is_estopped, Call_Merge ''routine'', Call_upload_choreography demo_routine True])"
    by simp
  from upload_errors_classified
         [of rejected_world "''routine''" demo_routine "''Rejected''" bosdyn_pb2
             "[''bad move; '', ''bad slice'']"] b
  have second: "execute_dance bosdyn_pb2 rejected_world ''routine'' =
     Some (Inr (False,
       ''Choreography sequence upload failed. The following warnings were produced: bad move; bad slice''),
       [Call_is_estopped, Call_Merge ''routine'', Call_upload_choreography demo_routine True])"
    by simp
  from a b first second show ?thesis
    by simp
qed

text \<open>
  Claim C7.  When the robot is not estopped and parsing the routine text raises, the
  result is \<open>False\<close> with the message \<open>Failed to load choreography. Raised exception:\<close>
  followed by the parser's text, and the parse is the last call: nothing is uploaded.
\<close>

theorem parse_failure_reported_without_upload:
  "is_estopped w = Inr False \<Longrightarrow> Merge w data = Inl execp \<Longrightarrow>
   execute_dance pb w data =
     Some (Inr (False, ''Failed to load choreography. Raised exception: '' @ str_exn execp),
           [Call_is_estopped, Call_Merge data]) \<and>
   sublist (str_exn execp) (''Failed to load choreography. Raised exception: '' @ str_exn execp)"
proof
  assume "is_estopped w = Inr False" "Merge w data = Inl execp"
  then show "execute_dance pb w data =
     Some (Inr (False, ''Failed to load choreography. Raised exception: '' @ str_exn execp),
           [Call_is_estopped, Call_Merge data])"
    by (simp add: execute_dance_def)
next
  show "sublist (str_exn execp)
          (''Failed to load choreography. Raised exception: '' @ str_exn execp)"
    by (rule sublist_append_leftI)
qed

theorem parse_failure_reported_without_upload_witness:
  "is_estopped dancing_world = Inr False \<and>
   Merge dancing_world ''moves {'' = Inl (OtherException ''1:1 : Expected identifier or number.'') \<and>
   execute_dance bosdyn_pb2 dancing_world ''moves {'' =
     Some (Inr (False,
       ''Failed to load choreography. Raised exception: 1:1 : Expected identifier or number.''),
       [Call_is_estopped, Call_Merge ''moves {''])"
proof -
  have h: "is_estopped dancing_world = Inr False"
    "Merge dancing_world ''moves {'' = Inl (OtherException ''1:1 : Expected identifier or number.'')"
    by (simp_all add: demo_defs)
  from parse_failure_reported_without_upload [OF h, of bosdyn_pb2] h show ?thesis
    by simp
qed

subsection \<open>A routine without moves\<close>

text \<open>
  Claim C10.  When the routine has no moves and the run gets as far as an accepted
  execute request, \<^verbatim>\<open>estimated_time_seconds\<close> is still unbound when the loop test reads
  it: the result is \<open>False\<close> with \<open>Error executing dance:\<close> followed by the interpreter's
  text for the unbound local (that of CPython up to 3.10), and no status request is made.
\<close>

theorem no_moves_gives_generic_failure:
  "execution_started pb w data c \<Longrightarrow> moves c = [] \<Longrightarrow>
   execute_dance pb w data =
     Some (Inr (False, ''Error executing dance: '' @
                  ''local variable 'estimated_time_seconds' referenced before assignment''),
           started_calls w data c @ [Call_time, Call_time]) \<and>
   Call_get_choreography_status \<notin> set (started_calls w data c @ [Call_time, Call_time])"
  by (simp add: execute_dance_started estimated_time_seconds_eq started_calls_def
      uploaded_calls_def)

theorem no_moves_gives_generic_failure_witness:
  "execution_started bosdyn_pb2 dancing_world ''no moves'' empty_routine \<and>
   moves empty_routine = [] \<and>
   execute_dance bosdyn_pb2 dancing_world ''no moves'' =
     Some (Inr (False,
       ''Error executing dance: local variable 'estimated_time_seconds' referenced before assignment''),
       [Call_is_estopped, Call_Merge ''no moves'', Call_upload_choreography empty_routine True,
        Call_power_on, Call_time, Call_execute_choreography ''empty'' 0 0,
        Call_time, Call_time])"
proof -
  have h: "execution_started bosdyn_pb2 dancing_world ''no moves'' empty_routine"
    "moves empty_routine = []"
    by (simp_all add: execution_started_def demo_defs)
  have tr: "started_calls dancing_world ''no moves'' empty_routine @ [Call_time, Call_time] =
       [Call_is_estopped, Call_Merge ''no moves'', Call_upload_choreography empty_routine True,
        Call_power_on, Call_time, Call_execute_choreography ''empty'' 0 0,
        Call_time, Call_time]"
    by (simp add: started_calls_def uploaded_calls_def demo_defs)
  from no_moves_gives_generic_failure [OF h] h show ?thesis
    unfolding tr by simp
qed

section \<open>\<^verbatim>\<open>upload_animation\<close>: a conversion that fails\<close>

text \<open>
  Claim C9, amended.  When the file has been written and the converter raises,
  \<^verbatim>\<open>upload_animation\<close> returns \<open>False\<close> with the message
  \<open>Failed to convert animation file to protobuf message:\<close> followed by the converter's
  text, and after the conversion only the temporary directory is removed: the service is
  not called.
\<close>

theorem conversion_failure_reported_without_upload:
  "write_file w (os_path_join (temp_dir w) (animation_name @ ''.cha'')) content = None \<Longrightarrow>
   convert_animation_file_to_proto w (os_path_join (temp_dir w) (animation_name @ ''.cha''))
     content = Inl e \<Longrightarrow>
   upload_animation w animation_name content =
     (Inr (False, ''Failed to convert animation file to protobuf message: '' @ str_exn e),
      [Call_TemporaryDirectory,
       Call_write (os_path_join (temp_dir w) (animation_name @ ''.cha'')) content,
       Call_convert (os_path_join (temp_dir w) (animation_name @ ''.cha'')),
       Call_cleanup (temp_dir w)])"
  by (simp add: upload_animation_def Let_def)

theorem conversion_failure_reported_without_upload_witness:
  "write_file broken_clip_world
     (os_path_join (temp_dir broken_clip_world) (''wave'' @ ''.cha'')) ''frames'' = None \<and>
   convert_animation_file_to_proto broken_clip_world
     (os_path_join (temp_dir broken_clip_world) (''wave'' @ ''.cha'')) ''frames'' =
     Inl (OtherException ''bad header'') \<and>
   upload_animation broken_clip_world ''wave'' ''frames'' =
     (Inr (False, ''Failed to convert animation file to protobuf message: bad header''),
      [Call_TemporaryDirectory, Call_write ''/tmp/tmpq3/wave.cha'' ''frames'',
       Call_convert ''/tmp/tmpq3/wave.cha'', Call_cleanup ''/tmp/tmpq3''])"
proof -
  have h: "write_file broken_clip_world
     (os_path_join (temp_dir broken_clip_world) (''wave'' @ ''.cha'')) ''frames'' = None"
    "convert_animation_file_to_proto broken_clip_world
     (os_path_join (temp_dir broken_clip_world) (''wave'' @ ''.cha'')) ''frames'' =
     Inl (OtherException ''bad header'')"
    by (simp_all add: broken_clip_world_def)
  have path: "os_path_join ''/tmp/tmpq3'' ''wave.cha'' = ''/tmp/tmpq3/wave.cha''"
    by (simp add: os_path_join_def)
  have dir: "temp_dir broken_clip_world = ''/tmp/tmpq3''"
    by (simp add: broken_clip_world_def)
  from conversion_failure_reported_without_upload [OF h] h show ?thesis
    by (simp add: path dir)
qed

text \<open>
  Claim C9 as stated fails on the wording of the message: it is not
  \<open>conversion failed:\<close> followed by the converter's text.
\<close>

theorem conversion_failure_message_differs:
  "convert_animation_file_to_proto broken_clip_world ''/tmp/tmpq3/wave.cha'' ''frames'' =
     Inl (OtherException ''bad header'') \<and>
   fst (upload_animation broken_clip_world ''wave'' ''frames'') =
     Inr (False, ''Failed to convert animation file to protobuf message: bad header'') \<and>
   fst (upload_animation broken_clip_world ''wave'' ''frames'') \<noteq>
     Inr (False, ''conversion failed: bad header'')"
  by (simp add: upload_animation_def os_path_join_def broken_clip_world_def Let_def)

end
